theory Spec2Isabelle
  imports Complex_Main "HOL-Library.AList"
begin

section \<open>Data model of \<open>utils/TowerManager.py\<close>\<close>

text \<open>
  The class \<open>TowerManager\<close> holds a location, a pandas table of towers, a list of network
  names and two result dictionaries. Coordinates are Python floats; they are modelled as
  \<open>real\<close>, so rounding, infinities and NaN coordinates are outside the model. Python
  dictionaries keep insertion order, so they are association lists, written with
  \<open>AList.update\<close> (replace in place, or append) and read with \<open>map_of\<close>.
\<close>

datatype error = AttributeError | KeyError | TypeError

text \<open>A Python value as it occurs in a table cell or in the report.\<close>

datatype pyval = Num real | Bool bool | Str string | NaN

text \<open>\<open>utils.Locator\<close>: only its two attributes are read.\<close>

record Locator =
  latitude :: real
  longitude :: real

text \<open>
  One row of the table: its index label, the three columns the search reads, and the
  value of every other column by column name.
\<close>

record tower =
  idx :: int
  Operateur :: int
  Latitude :: real
  Longitude :: real
  cell :: "string \<Rightarrow> pyval"

record DataFrame =
  columns :: "string list"
  rows :: "tower list"

record TowerManager =
  location :: Locator
  database :: DataFrame
  networks :: "string list"
  tower_indexes :: "(int \<times> int) list"
  towers_coverage :: "(string \<times> (string \<times> pyval) list) list"

section \<open>Construction\<close>

text \<open>
  The arguments of \<open>__init__\<close> are dynamically typed: the location may be any object, the
  networks may be \<open>None\<close>, a list, or anything else.
\<close>

datatype location_arg = A_Locator Locator | Not_A_Locator

datatype networks_arg = Networks_None | Networks_List "string list" | Networks_Other

definition check_location :: "location_arg \<Rightarrow> error + Locator" where
  "check_location l = (case l of A_Locator loc \<Rightarrow> Inr loc | Not_A_Locator \<Rightarrow> Inl AttributeError)"

definition expected_columns :: "string set" where
  "expected_columns = {''Operateur'', ''Latitude'', ''Longitude'', ''2G'', ''3G'', ''4G''}"

text \<open>
  \<open>check_database\<close>: without a table the bundled CSV file is read. The table that
  \<open>pd.read_csv\<close> returns for that file is the parameter \<open>csv\<close>; the source assumes that
  the file is there (its comment: the path is assumed to be launched only from the
  project's own directory), and a failure to read it is not modelled.
\<close>

definition check_database :: "DataFrame \<Rightarrow> DataFrame option \<Rightarrow> error + DataFrame" where
  "check_database csv d =
     (let db = (case d of None \<Rightarrow> csv | Some given \<Rightarrow> given)
      in if \<not> expected_columns \<subseteq> set (columns db) then Inl AttributeError else Inr db)"

definition check_networks :: "DataFrame \<Rightarrow> networks_arg \<Rightarrow> error + string list" where
  "check_networks db n =
     (case (case n of Networks_None \<Rightarrow> Networks_List [''2G'', ''3G'', ''4G''] | other \<Rightarrow> other) of
        Networks_List ns \<Rightarrow>
          if \<not> set ns \<subseteq> set (columns db) then Inl AttributeError else Inr ns
      | _ \<Rightarrow> Inl AttributeError)"

definition init :: "DataFrame \<Rightarrow> location_arg \<Rightarrow> DataFrame option \<Rightarrow> networks_arg
    \<Rightarrow> error + TowerManager" where
  "init csv l d n =
     (case check_location l of
        Inl e \<Rightarrow> Inl e
      | Inr loc \<Rightarrow>
          (case check_database csv d of
             Inl e \<Rightarrow> Inl e
           | Inr db \<Rightarrow>
               (case check_networks db n of
                  Inl e \<Rightarrow> Inl e
                | Inr ns \<Rightarrow>
                    Inr \<lparr>location = loc, database = db, networks = ns,
                         tower_indexes = [], towers_coverage = []\<rparr>)))"

section \<open>Region reduction\<close>

text \<open>The row mask of \<open>reduced_database\<close>: four strict comparisons.\<close>

definition in_box :: "Locator \<Rightarrow> real \<Rightarrow> tower \<Rightarrow> bool" where
  "in_box loc area r \<longleftrightarrow>
     Latitude r > latitude loc - area \<and> Latitude r < latitude loc + area \<and>
     Longitude r > longitude loc - area \<and> Longitude r < longitude loc + area"

text \<open>\<open>self.database.loc[mask]\<close>: the rows the mask keeps, in order, with their labels.\<close>

definition box_region :: "TowerManager \<Rightarrow> real \<Rightarrow> DataFrame" where
  "box_region self area = (database self)\<lparr>rows := filter (in_box (location self) area) (rows (database self))\<rparr>"

text \<open>\<open>set(df['Operateur'])\<close>\<close>

definition Operateur_set :: "DataFrame \<Rightarrow> int set" where
  "Operateur_set df = set (map Operateur (rows df))"

text \<open>
  \<open>reduced_database\<close> calls itself with a larger area until four distinct operators are
  in the box. Nothing bounds the recursion in the source, so the function is partial:
  \<open>None\<close> is a call that never returns a region. (The limit that the Python interpreter
  puts on the depth of recursion is not part of the model.) The area is an integer in
  the docstring and 1 by default; it is a \<open>real\<close> here, which covers both the integers
  and a float that a caller may pass.
\<close>

partial_function (option) reduced_database :: "TowerManager \<Rightarrow> real \<Rightarrow> DataFrame option" where
  "reduced_database self area =
     (let ret = box_region self area
      in if card (Operateur_set ret) < 4 then reduced_database self (area + 1) else Some ret)"

section \<open>Nearest tower of each operator\<close>

type_synonym minimums = "(int \<times> (real \<times> int)) list"

text \<open>
  The first loop of \<open>locate_closest_towers\<close>. The order in which Python enumerates a set
  is not specified; the model enumerates the operators in the order of their first row.
\<close>

definition init_minimums :: "DataFrame \<Rightarrow> minimums" where
  "init_minimums df = map (\<lambda>op. (op, (100, 0))) (remdups (map Operateur (rows df)))"

definition distance :: "Locator \<Rightarrow> tower \<Rightarrow> real" where
  "distance loc r =
     (let dist_lat = latitude loc - Latitude r;
          dist_ln = longitude loc - Longitude r
      in sqrt (dist_lat ^ 2 + dist_ln ^ 2))"

text \<open>The scan over \<open>iterrows()\<close>; a missing key of \<open>minimums\<close> raises \<open>KeyError\<close>.\<close>

fun scan_rows :: "Locator \<Rightarrow> tower list \<Rightarrow> minimums \<Rightarrow> error + minimums" where
  "scan_rows loc [] m = Inr m"
| "scan_rows loc (r # rs) m =
     (case map_of m (Operateur r) of
        None \<Rightarrow> Inl KeyError
      | Some best \<Rightarrow>
          if distance loc r < fst best
          then scan_rows loc rs (AList.update (Operateur r) (distance loc r, idx r) m)
          else scan_rows loc rs m)"

text \<open>The last loop: \<open>self.tower_indexes[operator] = values[1]\<close>.\<close>

fun fill_indexes :: "minimums \<Rightarrow> (int \<times> int) list \<Rightarrow> (int \<times> int) list" where
  "fill_indexes [] ti = ti"
| "fill_indexes ((operator, values) # m) ti = fill_indexes m (AList.update operator (snd values) ti)"

definition locate_closest_towers :: "TowerManager \<Rightarrow> error + TowerManager" where
  "locate_closest_towers self =
     (case scan_rows (location self) (rows (database self)) (init_minimums (database self)) of
        Inl e \<Rightarrow> Inl e
      | Inr m \<Rightarrow> Inr (self\<lparr>tower_indexes := fill_indexes m (tower_indexes self)\<rparr>))"

section \<open>Coverage of the chosen towers\<close>

text \<open>
  The dictionary \<open>t_f = {1: 'true', 0: 'false'}\<close>. Python finds the key \<open>1\<close> for \<open>1\<close>,
  \<open>1.0\<close> and \<open>True\<close>, the key \<open>0\<close> for \<open>0\<close>, \<open>0.0\<close> and \<open>False\<close>, and no key otherwise.
\<close>

definition t_f :: "pyval \<Rightarrow> pyval option" where
  "t_f v =
     (if v = Num 1 \<or> v = Bool True then Some (Str ''true'')
      else if v = Num 0 \<or> v = Bool False then Some (Str ''false'')
      else None)"

text \<open>
  \<open>t_f[self.database.at[index, net]]\<close>: \<open>at\<close> raises \<open>KeyError\<close> for an unknown column or
  label; for a label that several rows carry it returns a Series, which is not hashable,
  so the lookup in \<open>t_f\<close> raises \<open>TypeError\<close>.
\<close>

definition at_t_f :: "DataFrame \<Rightarrow> int \<Rightarrow> string \<Rightarrow> error + pyval" where
  "at_t_f df index net =
     (if net \<notin> set (columns df) then Inl KeyError
      else case filter (\<lambda>r. idx r = index) (rows df) of
             [] \<Rightarrow> Inl KeyError
           | [r] \<Rightarrow> (case t_f (cell r net) of None \<Rightarrow> Inl KeyError | Some s \<Rightarrow> Inr s)
           | _ \<Rightarrow> Inl TypeError)"

text \<open>The inner loop over \<open>self.networks\<close>, filling the dictionary of one operator.\<close>

fun fill_networks :: "DataFrame \<Rightarrow> int \<Rightarrow> string list \<Rightarrow> (string \<times> pyval) list
    \<Rightarrow> error + (string \<times> pyval) list" where
  "fill_networks df index [] d = Inr d"
| "fill_networks df index (net # ns) d =
     (case at_t_f df index net of
        Inl e \<Rightarrow> Inl e
      | Inr s \<Rightarrow> fill_networks df index ns (AList.update net s d))"

text \<open>
  The outer loop over \<open>self.tower_indexes.items()\<close>. \<open>operator_code\<close> is imported from
  \<open>databases.datascripts\<close>, which is not part of the sources at hand: it is the parameter
  \<open>oc\<close>. An exception leaves the loop; the model then returns the error only.
\<close>

fun coverage_loop :: "(int \<rightharpoonup> string) \<Rightarrow> DataFrame \<Rightarrow> string list \<Rightarrow> (int \<times> int) list
    \<Rightarrow> (string \<times> (string \<times> pyval) list) list
    \<Rightarrow> error + (string \<times> (string \<times> pyval) list) list" where
  "coverage_loop oc df ns [] cov = Inr cov"
| "coverage_loop oc df ns ((operator, index) # items) cov =
     (case oc operator of
        None \<Rightarrow> Inl KeyError
      | Some label \<Rightarrow>
          (case fill_networks df index ns [] of
             Inl e \<Rightarrow> Inl e
           | Inr d \<Rightarrow> coverage_loop oc df ns items (AList.update label d cov)))"

definition find_towers_coverage :: "(int \<rightharpoonup> string) \<Rightarrow> TowerManager \<Rightarrow> error + TowerManager" where
  "find_towers_coverage oc self =
     (case coverage_loop oc (database self) (networks self) (tower_indexes self)
             (towers_coverage self) of
        Inl e \<Rightarrow> Inl e
      | Inr cov \<Rightarrow> Inr (self\<lparr>towers_coverage := cov\<rparr>))"

section \<open>The query\<close>

definition location_coverage :: "(int \<rightharpoonup> string) \<Rightarrow> TowerManager \<Rightarrow> (error + TowerManager) option" where
  "location_coverage oc self =
     (case reduced_database self 1 of
        None \<Rightarrow> None
      | Some ret \<Rightarrow>
          Some (case locate_closest_towers (self\<lparr>database := ret\<rparr>) of
                  Inl e \<Rightarrow> Inl e
                | Inr self' \<Rightarrow> find_towers_coverage oc self'))"

section \<open>Example instances\<close>

text \<open>
  Small tables for the concrete evaluations below: every tower has the flags
  \<open>2G = 1\<close>, \<open>3G = 0\<close>, \<open>4G = 1\<close>, and the query point is the origin.
\<close>

definition flags :: "pyval \<Rightarrow> pyval \<Rightarrow> pyval \<Rightarrow> string \<Rightarrow> pyval" where
  "flags g2 g3 g4 = (\<lambda>c. NaN)(''2G'' := g2, ''3G'' := g3, ''4G'' := g4)"

definition tw :: "int \<Rightarrow> int \<Rightarrow> real \<Rightarrow> real \<Rightarrow> tower" where
  "tw i op lat lon =
     \<lparr>idx = i, Operateur = op, Latitude = lat, Longitude = lon, cell = flags (Num 1) (Num 0) (Num 1)\<rparr>"

definition cols :: "string list" where
  "cols = [''Operateur'', ''Latitude'', ''Longitude'', ''2G'', ''3G'', ''4G'']"

definition manager :: "tower list \<Rightarrow> TowerManager" where
  "manager rs =
     \<lparr>location = \<lparr>latitude = 0, longitude = 0\<rparr>, database = \<lparr>columns = cols, rows = rs\<rparr>,
      networks = [''2G'', ''3G'', ''4G''], tower_indexes = [], towers_coverage = []\<rparr>"

definition four_near :: "tower list" where
  "four_near = [tw 0 1 0 0, tw 1 2 0 0, tw 2 3 0 0, tw 3 4 0 0]"

text \<open>A stand-in for the table \<open>operator_code\<close>.\<close>

definition example_code :: "int \<rightharpoonup> string" where
  "example_code = [1 \<mapsto> ''Orange'', 2 \<mapsto> ''SFR'', 3 \<mapsto> ''Free'', 4 \<mapsto> ''Bouygues'']"

text \<open>
  Two tables in which the only towers of operator 4 are 120 degrees of longitude away
  from the query point, and the report of a tower with the flags 1, 0, 1.
\<close>

definition far_rows :: "tower list" where
  "far_rows = [tw 0 1 0 0, tw 1 2 0 0, tw 2 3 0 0, tw 3 4 0 120]"

definition tie_rows :: "tower list" where
  "tie_rows = [tw 0 1 0 0, tw 1 2 0 0, tw 2 3 0 0, tw 3 4 0 120, tw 4 4 0 (- 120)]"

definition report_101 :: "(string \<times> pyval) list" where
  "report_101 = [(''2G'', Str ''true''), (''3G'', Str ''false''), (''4G'', Str ''true'')]"

section \<open>Region reduction: the box\<close>

lemma in_box_mono: "r1 \<le> r2 \<Longrightarrow> in_box loc r1 t \<Longrightarrow> in_box loc r2 t"
  by (auto simp: in_box_def)

lemma Operateur_set_box_region:
  "Operateur_set (box_region self a) \<subseteq> Operateur_set (database self)"
  by (auto simp: Operateur_set_def box_region_def)

lemma finite_Operateur_set: "finite (Operateur_set df)"
  by (simp add: Operateur_set_def)

text \<open>
  C6. A tower whose latitude or longitude lies exactly on one of the four bounds of the
  box of a radius is not in the region that the filter yields for that radius: all four
  comparisons are strict.
\<close>

theorem box_boundary_excluded:
  "Latitude t = latitude (location self) + area \<or> Latitude t = latitude (location self) - area \<or>
   Longitude t = longitude (location self) + area \<or> Longitude t = longitude (location self) - area
   \<Longrightarrow> t \<notin> set (rows (box_region self area))"
  by (auto simp: box_region_def in_box_def)

theorem box_boundary_excluded_witness:
  "Latitude (tw 4 5 1 0) = latitude (location (manager (four_near @ [tw 4 5 1 0]))) + 1
   \<and> tw 4 5 1 0 \<in> set (rows (database (manager (four_near @ [tw 4 5 1 0]))))
   \<and> tw 4 5 1 0 \<notin> set (rows (box_region (manager (four_near @ [tw 4 5 1 0])) 1))"
  using box_boundary_excluded [of "tw 4 5 1 0" "manager (four_near @ [tw 4 5 1 0])" 1]
  by (simp add: manager_def tw_def)

text \<open>
  C8. For radii \<open>r1 \<le> r2\<close>, every row in the box of radius \<open>r1\<close> is in the box of
  radius \<open>r2\<close>.
\<close>

theorem box_region_mono:
  "r1 \<le> r2 \<Longrightarrow> set (rows (box_region self r1)) \<subseteq> set (rows (box_region self r2))"
  by (auto simp: box_region_def intro: in_box_mono)

theorem box_region_mono_witness:
  "(1::real) \<le> 2
   \<and> set (rows (box_region (manager four_near) 1)) \<subseteq> set (rows (box_region (manager four_near) 2))
   \<and> tw 0 1 0 0 \<in> set (rows (box_region (manager four_near) 1))"
  using box_region_mono [of 1 2 "manager four_near"]
  by (simp add: manager_def four_near_def tw_def box_region_def in_box_def)

section \<open>Region reduction: the recursion\<close>

text \<open>A region that is returned is the box of some radius \<open>area + n\<close>, and has four operators.\<close>

lemma reduced_database_Some:
  assumes "reduced_database self a = Some ret"
  shows "\<exists>n::nat. ret = box_region self (a + real n) \<and> 4 \<le> card (Operateur_set ret)"
proof (rule reduced_database.raw_induct
    [where P = "\<lambda>self a ret. \<exists>n::nat. ret = box_region self (a + real n) \<and> 4 \<le> card (Operateur_set ret)",
      OF _ assms])
  fix rd :: "TowerManager \<Rightarrow> real \<Rightarrow> DataFrame option" and self a ret
  assume IH: "\<And>s b y. rd s b = Some y \<Longrightarrow>
      \<exists>n::nat. y = box_region s (b + real n) \<and> 4 \<le> card (Operateur_set y)"
    and body: "(let ret = box_region self a
                in if card (Operateur_set ret) < 4 then rd self (a + 1) else Some ret) = Some ret"
  show "\<exists>n::nat. ret = box_region self (a + real n) \<and> 4 \<le> card (Operateur_set ret)"
  proof (cases "card (Operateur_set (box_region self a)) < 4")
    case True
    with body have "rd self (a + 1) = Some ret" by (simp add: Let_def)
    from IH[OF this] obtain n :: nat
      where "ret = box_region self (a + 1 + real n)" "4 \<le> card (Operateur_set ret)" by blast
    then have "ret = box_region self (a + real (Suc n)) \<and> 4 \<le> card (Operateur_set ret)"
      by (simp add: add.assoc)
    then show ?thesis by blast
  next
    case False
    with body have "ret = box_region self a" by (simp add: Let_def)
    with False have "ret = box_region self (a + real 0) \<and> 4 \<le> card (Operateur_set ret)" by simp
    then show ?thesis by blast
  qed
qed

lemma reduced_database_None:
  assumes "card (Operateur_set (database self)) < 4"
  shows "reduced_database self a = None"
proof (cases "reduced_database self a")
  case None
  then show ?thesis .
next
  case (Some ret)
  from reduced_database_Some[OF Some] obtain n :: nat
    where r: "ret = box_region self (a + real n)" and c: "4 \<le> card (Operateur_set ret)" by blast
  have "card (Operateur_set ret) \<le> card (Operateur_set (database self))"
    unfolding r by (rule card_mono[OF finite_Operateur_set Operateur_set_box_region])
  with c assms show ?thesis by simp
qed

text \<open>
  So the rows of a returned region lie strictly inside the box of the radius at which the
  recursion stopped, which may be larger than the radius of the call.
\<close>

lemma reduced_database_strictly_inside:
  assumes "reduced_database self a = Some ret"
  shows "\<exists>n::nat. ret = box_region self (a + real n)
           \<and> (\<forall>t \<in> set (rows ret). in_box (location self) (a + real n) t)"
proof -
  from reduced_database_Some[OF assms] obtain n :: nat where r: "ret = box_region self (a + real n)"
    by blast
  then have "\<forall>t \<in> set (rows ret). in_box (location self) (a + real n) t"
    by (simp add: box_region_def)
  with r show ?thesis by blast
qed

text \<open>If some box \<open>area + n\<close> holds four operators, the recursion stops at it or before.\<close>

lemma reduced_database_reaches:
  "4 \<le> card (Operateur_set (box_region self (a + real n))) \<Longrightarrow> \<exists>ret. reduced_database self a = Some ret"
proof (induction n arbitrary: a)
  case 0
  then show ?case by (subst reduced_database.simps) (simp add: Let_def)
next
  case (Suc n)
  show ?case
  proof (cases "card (Operateur_set (box_region self a)) < 4")
    case True
    have "a + 1 + real n = a + real (Suc n)" by simp
    with Suc.prems have "4 \<le> card (Operateur_set (box_region self (a + 1 + real n)))"
      by (simp add: add.assoc)
    from Suc.IH[OF this] obtain ret where "reduced_database self (a + 1) = Some ret" by blast
    with True show ?thesis by (subst reduced_database.simps) (simp add: Let_def)
  next
    case False
    then show ?thesis by (subst reduced_database.simps) (simp add: Let_def)
  qed
qed

lemma rows_bounded: "\<exists>B::real. \<forall>r \<in> set rs. \<bar>Latitude r - x\<bar> < B \<and> \<bar>Longitude r - y\<bar> < B"
proof (induction rs)
  case Nil
  then show ?case by simp
next
  case (Cons r rs)
  then obtain B where B: "\<forall>r \<in> set rs. \<bar>Latitude r - x\<bar> < B \<and> \<bar>Longitude r - y\<bar> < B" by blast
  let ?C = "max B (max (\<bar>Latitude r - x\<bar> + 1) (\<bar>Longitude r - y\<bar> + 1))"
  have "\<forall>r' \<in> set (r # rs). \<bar>Latitude r' - x\<bar> < ?C \<and> \<bar>Longitude r' - y\<bar> < ?C"
    using B by (auto simp: less_max_iff_disj)
  then show ?case by blast
qed

text \<open>The table is finite, so a large enough box holds all of it.\<close>

lemma box_region_eventually_all: "\<exists>n::nat. box_region self (a + real n) = database self"
proof -
  obtain B where B: "\<forall>r \<in> set (rows (database self)).
      \<bar>Latitude r - latitude (location self)\<bar> < B \<and> \<bar>Longitude r - longitude (location self)\<bar> < B"
    using rows_bounded by blast
  obtain n :: nat where n: "B - a < real n" using reals_Archimedean2 by blast
  have "\<forall>r \<in> set (rows (database self)). in_box (location self) (a + real n) r"
  proof
    fix r assume "r \<in> set (rows (database self))"
    with B have "\<bar>Latitude r - latitude (location self)\<bar> < B" "\<bar>Longitude r - longitude (location self)\<bar> < B"
      by auto
    with n show "in_box (location self) (a + real n) r" by (auto simp: in_box_def abs_less_iff)
  qed
  then have "filter (in_box (location self) (a + real n)) (rows (database self)) = rows (database self)"
    by simp
  then have "box_region self (a + real n) = database self" by (simp add: box_region_def)
  then show ?thesis by blast
qed

text \<open>
  C1, as the code has it. For every table with at least four distinct operators,
  \<open>reduced_database\<close> returns, and the region it returns is a part of the table that holds
  rows of at least four distinct operators; when the table has exactly four operators,
  that is a row of every operator. The threshold is the literal \<open>4\<close>, not the number of
  operators of the table.
\<close>

theorem reduced_database_terminates:
  assumes "4 \<le> card (Operateur_set (database self))"
  shows "\<exists>ret. reduced_database self area = Some ret
           \<and> 4 \<le> card (Operateur_set ret)
           \<and> Operateur_set ret \<subseteq> Operateur_set (database self)
           \<and> set (rows ret) \<subseteq> set (rows (database self))
           \<and> (card (Operateur_set (database self)) = 4 \<longrightarrow> Operateur_set ret = Operateur_set (database self))"
proof -
  obtain n :: nat where "box_region self (area + real n) = database self"
    using box_region_eventually_all by blast
  with assms have "4 \<le> card (Operateur_set (box_region self (area + real n)))" by simp
  then obtain ret where ret: "reduced_database self area = Some ret"
    using reduced_database_reaches by blast
  from reduced_database_Some[OF ret] obtain m :: nat
    where r: "ret = box_region self (area + real m)" and c: "4 \<le> card (Operateur_set ret)" by blast
  have sub: "Operateur_set ret \<subseteq> Operateur_set (database self)"
    unfolding r by (rule Operateur_set_box_region)
  have rs: "set (rows ret) \<subseteq> set (rows (database self))"
    unfolding r by (auto simp: box_region_def)
  have "Operateur_set ret = Operateur_set (database self)" if "card (Operateur_set (database self)) = 4"
    using card_seteq[OF finite_Operateur_set sub] c that by simp
  with ret c sub rs show ?thesis by blast
qed

theorem reduced_database_terminates_witness:
  "4 \<le> card (Operateur_set (database (manager four_near)))
   \<and> card (Operateur_set (database (manager four_near))) = 4
   \<and> (\<exists>ret. reduced_database (manager four_near) 1 = Some ret
         \<and> Operateur_set ret = Operateur_set (database (manager four_near)))"
  using reduced_database_terminates [of "manager four_near" 1]
  by (simp add: manager_def four_near_def tw_def Operateur_set_def) blast

text \<open>
  The claim as the specification words it fails on a table with five operators: four of
  them have a tower at the query point, so the first box already ends the recursion, and
  the tower of the fifth operator, five degrees away, is not in the region.
\<close>

theorem reduced_database_fifth_operator_counterexample:
  "4 \<le> card (Operateur_set (database (manager (four_near @ [tw 4 5 5 5]))))
   \<and> reduced_database (manager (four_near @ [tw 4 5 5 5])) 1 = Some \<lparr>columns = cols, rows = four_near\<rparr>
   \<and> 5 \<in> Operateur_set (database (manager (four_near @ [tw 4 5 5 5])))
   \<and> 5 \<notin> Operateur_set \<lparr>columns = cols, rows = four_near\<rparr>"
  by (subst reduced_database.simps)
     (simp add: manager_def four_near_def tw_def Operateur_set_def box_region_def in_box_def)

text \<open>
  C4, as the code has it. The source has no cap on the radius and no error of this kind:
  for every table with fewer than four distinct operators, \<open>reduced_database\<close> returns
  nothing at any starting area, and neither does \<open>location_coverage\<close>.
\<close>

theorem reduced_database_no_cap:
  assumes "card (Operateur_set (database self)) < 4"
  shows "reduced_database self area = None \<and> location_coverage oc self = None"
  using reduced_database_None[OF assms] by (simp add: location_coverage_def)

theorem reduced_database_no_cap_witness:
  "card (Operateur_set (database (manager [tw 0 1 0 0, tw 1 2 0 0, tw 2 3 0 0]))) < 4
   \<and> reduced_database (manager [tw 0 1 0 0, tw 1 2 0 0, tw 2 3 0 0]) 1 = None
   \<and> location_coverage Map.empty (manager [tw 0 1 0 0, tw 1 2 0 0, tw 2 3 0 0]) = None"
  using reduced_database_no_cap [of "manager [tw 0 1 0 0, tw 1 2 0 0, tw 2 3 0 0]" 1 Map.empty]
  by (simp add: manager_def tw_def Operateur_set_def)

text \<open>
  A table with a single operator: the call yields no outcome at all, so it does not end
  in an error after a bounded number of steps.
\<close>

theorem reduced_database_no_error_counterexample:
  "card (Operateur_set (database (manager [tw 0 1 0 0]))) < 4
   \<and> reduced_database (manager [tw 0 1 0 0]) 1 = None"
  using reduced_database_None [of "manager [tw 0 1 0 0]" 1]
  by (simp add: manager_def tw_def Operateur_set_def)

section \<open>Construction: when it raises\<close>

text \<open>
  C9. \<open>__init__\<close> raises exactly when the location is not a \<open>Locator\<close>, or the table (the
  one given, or the bundled one) lacks one of the six expected columns, or the networks
  are neither \<open>None\<close> nor a list, or a listed network is not a column of the table. With
  networks \<open>None\<close> and the first two checks passed it succeeds with the networks
  \<open>['2G', '3G', '4G']\<close>.
\<close>

theorem init_raises_iff:
  "(isl (init csv l d n) \<longleftrightarrow>
      (l = Not_A_Locator
       \<or> \<not> expected_columns \<subseteq> set (columns (case d of None \<Rightarrow> csv | Some given \<Rightarrow> given))
       \<or> n = Networks_Other
       \<or> (\<exists>ns. n = Networks_List ns
             \<and> \<not> set ns \<subseteq> set (columns (case d of None \<Rightarrow> csv | Some given \<Rightarrow> given)))))
   \<and> (n = Networks_None \<and> l = A_Locator loc
        \<and> expected_columns \<subseteq> set (columns (case d of None \<Rightarrow> csv | Some given \<Rightarrow> given))
      \<longrightarrow> init csv l d n =
            Inr \<lparr>location = loc, database = (case d of None \<Rightarrow> csv | Some given \<Rightarrow> given),
                 networks = [''2G'', ''3G'', ''4G''], tower_indexes = [], towers_coverage = []\<rparr>)"
  by (auto simp: init_def check_location_def check_database_def check_networks_def
      expected_columns_def Let_def
      split: location_arg.splits networks_arg.splits option.splits sum.splits if_splits)

theorem init_raises_iff_witness:
  "init \<lparr>columns = cols, rows = four_near\<rparr> (A_Locator \<lparr>latitude = 0, longitude = 0\<rparr>) None Networks_None
     = Inr (manager four_near)
   \<and> \<not> isl (init \<lparr>columns = cols, rows = four_near\<rparr> (A_Locator \<lparr>latitude = 0, longitude = 0\<rparr>)
              None Networks_None)
   \<and> isl (init \<lparr>columns = cols, rows = four_near\<rparr> (A_Locator \<lparr>latitude = 0, longitude = 0\<rparr>)
            (Some \<lparr>columns = cols, rows = four_near\<rparr>) (Networks_List [''5G'']))"
  using init_raises_iff [of "\<lparr>columns = cols, rows = four_near\<rparr>"
        "A_Locator \<lparr>latitude = 0, longitude = 0\<rparr>" None Networks_None "\<lparr>latitude = 0, longitude = 0\<rparr>"]
      init_raises_iff [of "\<lparr>columns = cols, rows = four_near\<rparr>"
        "A_Locator \<lparr>latitude = 0, longitude = 0\<rparr>" "Some \<lparr>columns = cols, rows = four_near\<rparr>"
        "Networks_List [''5G'']" "\<lparr>latitude = 0, longitude = 0\<rparr>"]
  by (simp add: manager_def cols_def expected_columns_def)

section \<open>Coverage of the chosen towers: results and failures\<close>

lemma t_f_None_iff: "t_f v = None \<longleftrightarrow> v \<notin> {Num 0, Num 1, Bool False, Bool True}"
  by (auto simp: t_f_def)




text \<open>A flag that is not a key of \<open>t_f\<close> makes the lookup for its row and network fail.\<close>

lemma at_t_f_bad_flag:
  assumes "r \<in> set (rows df)" and "idx r = index" and "t_f (cell r net) = None"
  shows "isl (at_t_f df index net)"
proof (cases "filter (\<lambda>r. idx r = index) (rows df)")
  case Nil
  then show ?thesis by (simp add: at_t_f_def)
next
  case (Cons x xs)
  show ?thesis
  proof (cases xs)
    case Nil
    with Cons have "filter (\<lambda>r. idx r = index) (rows df) = [x]" by simp
    moreover from assms(1,2) have "r \<in> set (filter (\<lambda>r. idx r = index) (rows df))" by simp
    ultimately have "x = r" by simp
    with \<open>filter (\<lambda>r. idx r = index) (rows df) = [x]\<close> assms(3) show ?thesis
      by (simp add: at_t_f_def)
  next
    case (Cons y ys)
    with \<open>filter (\<lambda>r. idx r = index) (rows df) = x # xs\<close> show ?thesis
      by (simp add: at_t_f_def)
  qed
qed

lemma fill_networks_bad_flag:
  "net \<in> set ns \<Longrightarrow> isl (at_t_f df index net) \<Longrightarrow> isl (fill_networks df index ns d)"
  by (induction ns arbitrary: d) (auto split: sum.splits)

lemma coverage_loop_bad_flag:
  "(operator, index) \<in> set items \<Longrightarrow> isl (fill_networks df index ns []) \<Longrightarrow>
     isl (coverage_loop oc df ns items cov)"
  by (induction items arbitrary: cov) (auto split: sum.splits option.splits)

text \<open>With distinct row labels every failure of the projection is a \<open>KeyError\<close>.\<close>

lemma filter_idx_distinct:
  fixes rs :: "tower list"
  shows "distinct (map idx rs) \<Longrightarrow> length (filter (\<lambda>r. idx r = index) rs) \<le> 1"
proof (induction rs)
  case Nil
  then show ?case by simp
next
  case (Cons x xs)
  then have le: "length (filter (\<lambda>r. idx r = index) xs) \<le> 1" and n: "idx x \<notin> idx ` set xs"
    by auto
  show ?case
  proof (cases "idx x = index")
    case True
    have "\<forall>r \<in> set xs. idx r \<noteq> index" using n True by (metis image_eqI)
    then have "filter (\<lambda>r. idx r = index) xs = []" by (simp add: filter_empty_conv)
    with True show ?thesis by simp
  next
    case False
    with le show ?thesis by simp
  qed
qed

lemma at_t_f_KeyError:
  assumes "distinct (map idx (rows df))" and "at_t_f df index net = Inl e"
  shows "e = KeyError"
proof -
  have "length (filter (\<lambda>r. idx r = index) (rows df)) \<le> 1"
    using assms(1) by (rule filter_idx_distinct)
  then have "filter (\<lambda>r. idx r = index) (rows df) = []
      \<or> (\<exists>x. filter (\<lambda>r. idx r = index) (rows df) = [x])"
    by (cases "filter (\<lambda>r. idx r = index) (rows df)") auto
  with assms(2) show ?thesis
    by (auto simp: at_t_f_def split: if_splits option.splits)
qed

lemma fill_networks_KeyError:
  "distinct (map idx (rows df)) \<Longrightarrow> fill_networks df index ns d = Inl e \<Longrightarrow> e = KeyError"
  by (induction ns arbitrary: d) (auto split: sum.splits dest: at_t_f_KeyError)

lemma coverage_loop_KeyError:
  "distinct (map idx (rows df)) \<Longrightarrow> coverage_loop oc df ns items cov = Inl e \<Longrightarrow> e = KeyError"
  by (induction items arbitrary: cov)
     (auto split: sum.splits option.splits dest: fill_networks_KeyError)

text \<open>
  C10. If a chosen tower has, for a requested network, a flag that is neither 0 nor 1
  (\<open>True\<close> and \<open>False\<close> count as 1 and 0), \<open>find_towers_coverage\<close> raises instead of
  returning a report; with distinct row labels the exception is a \<open>KeyError\<close>.
\<close>

theorem find_towers_coverage_bad_flag:
  assumes "(operator, index) \<in> set (tower_indexes self)"
    and "r \<in> set (rows (database self))" and "idx r = index"
    and "net \<in> set (networks self)"
    and "cell r net \<notin> {Num 0, Num 1, Bool False, Bool True}"
  shows "isl (find_towers_coverage oc self)
         \<and> (distinct (map idx (rows (database self))) \<longrightarrow> find_towers_coverage oc self = Inl KeyError)"
proof -
  from assms(5) have "t_f (cell r net) = None" by (simp add: t_f_None_iff)
  from at_t_f_bad_flag[OF assms(2,3) this]
  have "isl (fill_networks (database self) index (networks self) [])"
    by (rule fill_networks_bad_flag[OF assms(4)])
  from coverage_loop_bad_flag[OF assms(1) this]
  have l: "isl (coverage_loop oc (database self) (networks self) (tower_indexes self)
      (towers_coverage self))" .
  then obtain e where e: "coverage_loop oc (database self) (networks self) (tower_indexes self)
      (towers_coverage self) = Inl e"
    by (auto simp: isl_def)
  then have 1: "find_towers_coverage oc self = Inl e" by (simp add: find_towers_coverage_def)
  have "e = KeyError" if "distinct (map idx (rows (database self)))"
    using coverage_loop_KeyError[OF that e] .
  with 1 show ?thesis by simp
qed

theorem find_towers_coverage_bad_flag_witness:
  "(1, 0) \<in> set (tower_indexes ((manager [(tw 0 1 0 0)\<lparr>cell := flags (Num 1) NaN (Num 1)\<rparr>])
        \<lparr>tower_indexes := [(1, 0)]\<rparr>))
   \<and> cell ((tw 0 1 0 0)\<lparr>cell := flags (Num 1) NaN (Num 1)\<rparr>) ''3G'' \<notin> {Num 0, Num 1, Bool False, Bool True}
   \<and> distinct (map idx (rows (database (manager [(tw 0 1 0 0)\<lparr>cell := flags (Num 1) NaN (Num 1)\<rparr>]))))
   \<and> find_towers_coverage example_code
        ((manager [(tw 0 1 0 0)\<lparr>cell := flags (Num 1) NaN (Num 1)\<rparr>])\<lparr>tower_indexes := [(1, 0)]\<rparr>)
       = Inl KeyError"
  using find_towers_coverage_bad_flag [of 1 0
      "(manager [(tw 0 1 0 0)\<lparr>cell := flags (Num 1) NaN (Num 1)\<rparr>])\<lparr>tower_indexes := [(1, 0)]\<rparr>"
      "(tw 0 1 0 0)\<lparr>cell := flags (Num 1) NaN (Num 1)\<rparr>" "''3G''" example_code]
  by (simp add: manager_def tw_def flags_def)

section \<open>The query and the stored table\<close>

lemma locate_closest_towers_frame:
  "locate_closest_towers self = Inr self' \<Longrightarrow>
     database self' = database self \<and> location self' = location self \<and> networks self' = networks self"
  by (auto simp: locate_closest_towers_def split: sum.splits)

lemma find_towers_coverage_frame:
  "find_towers_coverage oc self = Inr self' \<Longrightarrow>
     database self' = database self \<and> location self' = location self \<and> networks self' = networks self"
  by (auto simp: find_towers_coverage_def split: sum.splits)

lemma reduced_database_five:
  "reduced_database (manager (four_near @ [tw 4 5 5 5])) 1 = Some \<lparr>columns = cols, rows = four_near\<rparr>"
  by (subst reduced_database.simps)
     (simp add: manager_def four_near_def tw_def Operateur_set_def box_region_def in_box_def)

lemma location_coverage_five:
  "location_coverage example_code (manager (four_near @ [tw 4 5 5 5])) =
     Some (Inr ((manager four_near)\<lparr>tower_indexes := [(1, 0), (2, 1), (3, 2), (4, 3)],
        towers_coverage := [(''Orange'', report_101), (''SFR'', report_101),
          (''Free'', report_101), (''Bouygues'', report_101)]\<rparr>))"
  unfolding location_coverage_def reduced_database_five
  by (simp add: locate_closest_towers_def init_minimums_def distance_def find_towers_coverage_def
      at_t_f_def t_f_def manager_def four_near_def tw_def cols_def flags_def example_code_def
      report_101_def)

text \<open>
  C5, as the code has it. \<open>reduced_database\<close> only returns the region; it is
  \<open>location_coverage\<close> that stores it. After a call of \<open>location_coverage\<close> that returns,
  the stored table is the region that \<open>reduced_database\<close> returned for the table held
  before: the same columns, and the rows of the old table that lie in the box of the last
  radius. The location and the networks are unchanged.
\<close>

theorem location_coverage_database:
  assumes "location_coverage oc self = Some (Inr self')"
  shows "reduced_database self 1 = Some (database self')
         \<and> columns (database self') = columns (database self)
         \<and> (\<exists>n::nat. rows (database self') =
                filter (in_box (location self) (1 + real n)) (rows (database self)))
         \<and> location self' = location self \<and> networks self' = networks self"
proof -
  from assms obtain ret where ret: "reduced_database self 1 = Some ret"
    by (auto simp: location_coverage_def split: option.splits)
  with assms obtain mid where mid: "locate_closest_towers (self\<lparr>database := ret\<rparr>) = Inr mid"
    and fin: "find_towers_coverage oc mid = Inr self'"
    by (auto simp: location_coverage_def split: sum.splits)
  from locate_closest_towers_frame[OF mid] find_towers_coverage_frame[OF fin]
  have fr: "database self' = ret" "location self' = location self" "networks self' = networks self"
    by simp_all
  from reduced_database_Some[OF ret] obtain n :: nat where "ret = box_region self (1 + real n)"
    by blast
  then have "columns ret = columns (database self)"
    and "rows ret = filter (in_box (location self) (1 + real n)) (rows (database self))"
    by (simp_all add: box_region_def)
  with ret fr show ?thesis by blast
qed

theorem location_coverage_database_witness:
  "location_coverage example_code (manager (four_near @ [tw 4 5 5 5])) =
     Some (Inr ((manager four_near)\<lparr>tower_indexes := [(1, 0), (2, 1), (3, 2), (4, 3)],
        towers_coverage := [(''Orange'', report_101), (''SFR'', report_101),
          (''Free'', report_101), (''Bouygues'', report_101)]\<rparr>))
   \<and> reduced_database (manager (four_near @ [tw 4 5 5 5])) 1 = Some (database (manager four_near))
   \<and> columns (database (manager four_near)) = columns (database (manager (four_near @ [tw 4 5 5 5])))"
  using location_coverage_database [OF location_coverage_five] location_coverage_five
  by simp

text \<open>
  Four operators at the query point and a fifth one five degrees away: after the query
  the stored table has lost the row of the fifth operator.
\<close>

theorem location_coverage_database_counterexample:
  "location_coverage example_code (manager (four_near @ [tw 4 5 5 5])) =
     Some (Inr ((manager four_near)\<lparr>tower_indexes := [(1, 0), (2, 1), (3, 2), (4, 3)],
        towers_coverage := [(''Orange'', report_101), (''SFR'', report_101),
          (''Free'', report_101), (''Bouygues'', report_101)]\<rparr>))
   \<and> database ((manager four_near)\<lparr>tower_indexes := [(1, 0), (2, 1), (3, 2), (4, 3)],
        towers_coverage := [(''Orange'', report_101), (''SFR'', report_101),
          (''Free'', report_101), (''Bouygues'', report_101)]\<rparr>)
       \<noteq> database (manager (four_near @ [tw 4 5 5 5]))"
  using location_coverage_five by (simp add: manager_def)

section \<open>Nearest tower of each operator: the scan\<close>

text \<open>
  The scan never raises, since every operator of a row is a key of \<open>minimums\<close>, and it
  keeps the keys. For each operator it either leaves the pair it started from, when no
  row of the operator is closer than that pair's distance, or ends with the first row of
  the operator at the least distance.
\<close>

lemma sqrt_less_100: "sqrt x < 100 \<longleftrightarrow> x < 10000"
proof -
  have "sqrt 10000 = 100" by (rule real_sqrt_unique) simp_all
  then have "sqrt x < 100 \<longleftrightarrow> sqrt x < sqrt 10000" by simp
  then show ?thesis by (simp only: real_sqrt_less_iff)
qed

lemma scan_rows_keys:
  "scan_rows loc rs m = Inr m' \<Longrightarrow> map fst m' = map fst m"
proof (induction rs arbitrary: m)
  case Nil
  then show ?case by simp
next
  case (Cons r rs)
  from Cons.prems obtain best where best: "map_of m (Operateur r) = Some best"
    by (auto split: option.splits)
  then have k: "Operateur r \<in> set (map fst m)"
    by (metis map_of_eq_None_iff option.distinct(1) set_map)
  show ?case
  proof (cases "distance loc r < fst best")
    case True
    with Cons.prems best
    have "scan_rows loc rs (AList.update (Operateur r) (distance loc r, idx r) m) = Inr m'" by simp
    from Cons.IH[OF this] k show ?thesis by (simp add: update_keys)
  next
    case False
    with Cons.prems best have "scan_rows loc rs m = Inr m'" by simp
    from Cons.IH[OF this] show ?thesis .
  qed
qed

lemma scan_rows_total:
  "Operateur ` set rs \<subseteq> fst ` set m \<Longrightarrow> \<exists>m'. scan_rows loc rs m = Inr m'"
proof (induction rs arbitrary: m)
  case Nil
  then show ?case by simp
next
  case (Cons r rs)
  then have "Operateur r \<in> fst ` set m" by simp
  then obtain best where best: "map_of m (Operateur r) = Some best"
    by (metis map_of_eq_None_iff not_Some_eq)
  from Cons.prems have sub: "Operateur ` set rs \<subseteq> fst ` set m" by simp
  then have "Operateur ` set rs \<subseteq> fst ` set (AList.update (Operateur r) (distance loc r, idx r) m)"
    by (auto simp: dom_update)
  from Cons.IH[OF this] Cons.IH[OF sub] best show ?case by simp
qed

lemma scan_rows_best:
  assumes "scan_rows loc rs m = Inr m'" and "map_of m op = Some (d, i)"
  shows "(map_of m' op = Some (d, i) \<and> (\<forall>x \<in> set rs. Operateur x = op \<longrightarrow> d \<le> distance loc x))
       \<or> (\<exists>pre t post. rs = pre @ t # post \<and> Operateur t = op
             \<and> map_of m' op = Some (distance loc t, idx t) \<and> distance loc t < d
             \<and> (\<forall>x \<in> set pre. Operateur x = op \<longrightarrow> distance loc t < distance loc x)
             \<and> (\<forall>x \<in> set post. Operateur x = op \<longrightarrow> distance loc t \<le> distance loc x))"
  using assms
proof (induction rs arbitrary: m d i)
  case Nil
  then show ?case by simp
next
  case (Cons r rs)
  from Cons.prems(1) obtain best where best: "map_of m (Operateur r) = Some best"
    by (auto split: option.splits)
  obtain m1 d1 i1 where run: "scan_rows loc rs m1 = Inr m'"
    and m1: "map_of m1 op = Some (d1, i1)"
    and le: "d1 \<le> d"
    and r: "Operateur r = op \<longrightarrow> d1 \<le> distance loc r"
    and how: "(d1, i1) = (d, i) \<or> (Operateur r = op \<and> d1 = distance loc r \<and> i1 = idx r \<and> distance loc r < d)"
  proof (cases "distance loc r < fst best")
    case True
    with Cons.prems(1) best
    have 1: "scan_rows loc rs (AList.update (Operateur r) (distance loc r, idx r) m) = Inr m'" by simp
    show ?thesis
    proof (cases "Operateur r = op")
      case eq: True
      with best Cons.prems(2) have "best = (d, i)" by simp
      with True have "distance loc r < d" by simp
      moreover have "map_of (AList.update (Operateur r) (distance loc r, idx r) m) op = Some (distance loc r, idx r)"
        using eq by (simp add: update_conv')
      ultimately show ?thesis using that[OF 1, of "distance loc r" "idx r"] eq by simp
    next
      case False
      then have "map_of (AList.update (Operateur r) (distance loc r, idx r) m) op = Some (d, i)"
        using Cons.prems(2) by (simp add: update_conv')
      then show ?thesis using that[OF 1, of d i] False by simp
    qed
  next
    case False
    with Cons.prems(1) best have 1: "scan_rows loc rs m = Inr m'" by simp
    have "Operateur r = op \<longrightarrow> d \<le> distance loc r"
      using False best Cons.prems(2) by auto
    then show ?thesis using that[OF 1 Cons.prems(2)] by simp
  qed
  from Cons.IH[OF run m1]
  show ?case
  proof (elim disjE exE conjE)
    assume a: "map_of m' op = Some (d1, i1)"
      and b: "\<forall>x \<in> set rs. Operateur x = op \<longrightarrow> d1 \<le> distance loc x"
    from how show ?thesis
    proof
      assume "(d1, i1) = (d, i)"
      with a b r show ?thesis by auto
    next
      assume h: "Operateur r = op \<and> d1 = distance loc r \<and> i1 = idx r \<and> distance loc r < d"
      have "r # rs = [] @ r # rs \<and> Operateur r = op
             \<and> map_of m' op = Some (distance loc r, idx r) \<and> distance loc r < d
             \<and> (\<forall>x \<in> set []. Operateur x = op \<longrightarrow> distance loc r < distance loc x)
             \<and> (\<forall>x \<in> set rs. Operateur x = op \<longrightarrow> distance loc r \<le> distance loc x)"
        using h a b by simp
      then show ?thesis by blast
    qed
  next
    fix pre t post
    assume s: "rs = pre @ t # post" and o: "Operateur t = op"
      and mo: "map_of m' op = Some (distance loc t, idx t)" and lt: "distance loc t < d1"
      and p: "\<forall>x \<in> set pre. Operateur x = op \<longrightarrow> distance loc t < distance loc x"
      and q: "\<forall>x \<in> set post. Operateur x = op \<longrightarrow> distance loc t \<le> distance loc x"
    have "r # rs = (r # pre) @ t # post \<and> Operateur t = op
           \<and> map_of m' op = Some (distance loc t, idx t) \<and> distance loc t < d
           \<and> (\<forall>x \<in> set (r # pre). Operateur x = op \<longrightarrow> distance loc t < distance loc x)
           \<and> (\<forall>x \<in> set post. Operateur x = op \<longrightarrow> distance loc t \<le> distance loc x)"
      using s o mo lt le r p q by auto
    then show ?thesis by blast
  qed
qed

lemma fill_indexes_map_of:
  "distinct (map fst m) \<Longrightarrow>
     map_of (fill_indexes m ti) op = (case map_of m op of Some v \<Rightarrow> Some (snd v) | None \<Rightarrow> map_of ti op)"
proof (induction m ti rule: fill_indexes.induct)
  case (1 ti)
  then show ?case by simp
next
  case (2 operator vals m ti)
  then have n: "map_of m operator = None" by (simp add: map_of_eq_None_iff)
  from 2 have "map_of (fill_indexes m (AList.update operator (snd vals) ti)) op =
      (case map_of m op of Some v \<Rightarrow> Some (snd v)
       | None \<Rightarrow> map_of (AList.update operator (snd vals) ti) op)" by simp
  with n show ?case by (auto simp: update_conv' split: option.splits)
qed

lemma init_minimums_keys: "map fst (init_minimums df) = remdups (map Operateur (rows df))"
  by (simp add: init_minimums_def comp_def)

lemma init_minimums_map_of:
  "op \<in> Operateur_set df \<Longrightarrow> map_of (init_minimums df) op = Some (100, 0)"
  by (auto simp: init_minimums_def Operateur_set_def map_of_map_restrict restrict_map_def)


lemma locate_closest_towers_scan:
  "\<exists>m'. scan_rows (location self) (rows (database self)) (init_minimums (database self)) = Inr m'
     \<and> locate_closest_towers self = Inr (self\<lparr>tower_indexes := fill_indexes m' (tower_indexes self)\<rparr>)
     \<and> distinct (map fst m')"
proof -
  have "Operateur ` set (rows (database self)) \<subseteq> fst ` set (init_minimums (database self))"
    using init_minimums_keys[of "database self"] by (metis set_map set_remdups subset_refl)
  from scan_rows_total[OF this] obtain m'
    where m': "scan_rows (location self) (rows (database self)) (init_minimums (database self)) = Inr m'"
    by blast
  from scan_rows_keys[OF m'] have "distinct (map fst m')" by (simp add: init_minimums_keys)
  with m' show ?thesis by (simp add: locate_closest_towers_def)
qed

text \<open>
  What the scan does get right: for an operator that has a row closer than 100 to the
  query point, the index stored is the label of a row of that operator that is strictly
  closer than every earlier row of the operator and at least as close as every later one,
  that is, the first row of the operator at the least distance.
\<close>

lemma locate_closest_towers_nearest:
  assumes "r \<in> set (rows (database self))" and "distance (location self) r < 100"
  shows "\<exists>self' pre t post. locate_closest_towers self = Inr self'
           \<and> rows (database self) = pre @ t # post \<and> Operateur t = Operateur r
           \<and> map_of (tower_indexes self') (Operateur r) = Some (idx t)
           \<and> (\<forall>x \<in> set pre. Operateur x = Operateur r \<longrightarrow>
                 distance (location self) t < distance (location self) x)
           \<and> (\<forall>x \<in> set post. Operateur x = Operateur r \<longrightarrow>
                 distance (location self) t \<le> distance (location self) x)"
proof -
  obtain m' where m': "scan_rows (location self) (rows (database self)) (init_minimums (database self)) = Inr m'"
    and res: "locate_closest_towers self = Inr (self\<lparr>tower_indexes := fill_indexes m' (tower_indexes self)\<rparr>)"
    and d: "distinct (map fst m')"
    using locate_closest_towers_scan by blast
  from assms(1) have "Operateur r \<in> Operateur_set (database self)" by (simp add: Operateur_set_def)
  then have "map_of (init_minimums (database self)) (Operateur r) = Some (100, 0)"
    by (rule init_minimums_map_of)
  note alt = scan_rows_best[OF m' this]
  have "\<not> (\<forall>x \<in> set (rows (database self)). Operateur x = Operateur r \<longrightarrow>
      100 \<le> distance (location self) x)"
    using assms by (metis not_le)
  with alt obtain pre t post where s: "rows (database self) = pre @ t # post"
    and o: "Operateur t = Operateur r"
    and mo: "map_of m' (Operateur r) = Some (distance (location self) t, idx t)"
    and p: "\<forall>x \<in> set pre. Operateur x = Operateur r \<longrightarrow> distance (location self) t < distance (location self) x"
    and q: "\<forall>x \<in> set post. Operateur x = Operateur r \<longrightarrow> distance (location self) t \<le> distance (location self) x"
    by blast
  from mo have "map_of (fill_indexes m' (tower_indexes self)) (Operateur r) = Some (idx t)"
    by (simp add: fill_indexes_map_of[OF d])
  then have ti: "map_of (tower_indexes (self\<lparr>tower_indexes := fill_indexes m' (tower_indexes self)\<rparr>))
      (Operateur r) = Some (idx t)" by simp
  from res s o ti p q show ?thesis by blast
qed

text \<open>
  And where it does not: if no row of an operator is closer than 100, the initial pair
  \<open>(100.0, 0)\<close> is never replaced and the index stored for the operator is the label 0.
\<close>

lemma locate_closest_towers_sentinel:
  assumes "op \<in> Operateur_set (database self)"
    and "\<forall>x \<in> set (rows (database self)). Operateur x = op \<longrightarrow> 100 \<le> distance (location self) x"
  shows "\<exists>self'. locate_closest_towers self = Inr self' \<and> map_of (tower_indexes self') op = Some 0"
proof -
  obtain m' where m': "scan_rows (location self) (rows (database self)) (init_minimums (database self)) = Inr m'"
    and res: "locate_closest_towers self = Inr (self\<lparr>tower_indexes := fill_indexes m' (tower_indexes self)\<rparr>)"
    and d: "distinct (map fst m')"
    using locate_closest_towers_scan by blast
  from scan_rows_best[OF m' init_minimums_map_of[OF assms(1)]] assms(2)
  have "map_of m' op = Some (100, 0)" by fastforce
  then have "map_of (fill_indexes m' (tower_indexes self)) op = Some 0"
    by (simp add: fill_indexes_map_of[OF d])
  with res show ?thesis by simp
qed

section \<open>Nearest tower of each operator: beyond the initial distance\<close>

lemma reduced_database_skip:
  "(\<And>k. k < n \<Longrightarrow> card (Operateur_set (box_region self (a + real k))) < 4) \<Longrightarrow>
     reduced_database self a = reduced_database self (a + real n)"
proof (induction n arbitrary: a)
  case 0
  then show ?case by simp
next
  case (Suc n)
  from Suc.prems[of 0] have "card (Operateur_set (box_region self a)) < 4" by simp
  then have 1: "reduced_database self a = reduced_database self (a + 1)"
    by (subst reduced_database.simps) (simp add: Let_def)
  have "card (Operateur_set (box_region self (a + 1 + real k))) < 4" if "k < n" for k
    using Suc.prems[of "Suc k"] that by (simp add: add.assoc)
  from Suc.IH[OF this] 1 show ?case by (simp add: add.assoc)
qed

lemma far_small_box:
  "a \<le> 120 \<Longrightarrow> card (Operateur_set (box_region (manager far_rows) a)) < 4"
  by (simp add: manager_def far_rows_def tw_def Operateur_set_def box_region_def in_box_def)

lemma tie_small_box:
  "a \<le> 120 \<Longrightarrow> card (Operateur_set (box_region (manager tie_rows) a)) < 4"
  by (simp add: manager_def tie_rows_def tw_def Operateur_set_def box_region_def in_box_def)

lemma reduced_database_far:
  "reduced_database (manager far_rows) 1 = Some (database (manager far_rows))"
proof -
  have "reduced_database (manager far_rows) 1 = reduced_database (manager far_rows) (1 + real 120)"
    by (rule reduced_database_skip) (simp add: far_small_box)
  also have "\<dots> = Some (database (manager far_rows))"
    by (subst reduced_database.simps)
       (simp add: manager_def far_rows_def tw_def Operateur_set_def box_region_def in_box_def)
  finally show ?thesis .
qed

lemma reduced_database_tie:
  "reduced_database (manager tie_rows) 1 = Some (database (manager tie_rows))"
proof -
  have "reduced_database (manager tie_rows) 1 = reduced_database (manager tie_rows) (1 + real 120)"
    by (rule reduced_database_skip) (simp add: tie_small_box)
  also have "\<dots> = Some (database (manager tie_rows))"
    by (subst reduced_database.simps)
       (simp add: manager_def tie_rows_def tw_def Operateur_set_def box_region_def in_box_def)
  finally show ?thesis .
qed

text \<open>
  C2. The claim asks, for every operator of the region, for the label of a row of that
  operator at the least distance. On the table \<open>far_rows\<close> the region that
  \<open>reduced_database\<close> returns is the whole table; the only row of operator 4 has the label
  3 and lies 120 away, which is not below the initial distance 100, and the index that
  \<open>locate_closest_towers\<close> stores for operator 4 is 0, the label of the row of operator 1.
\<close>

theorem locate_closest_towers_far:
  "reduced_database (manager far_rows) 1 = Some (database (manager far_rows))
   \<and> locate_closest_towers (manager far_rows)
       = Inr ((manager far_rows)\<lparr>tower_indexes := [(1, 0), (2, 1), (3, 2), (4, 0)]\<rparr>)
   \<and> filter (\<lambda>r. Operateur r = 4) far_rows = [tw 3 4 0 120]
   \<and> distance (location (manager far_rows)) (tw 3 4 0 120) = 120"
proof -
  have "locate_closest_towers (manager far_rows)
       = Inr ((manager far_rows)\<lparr>tower_indexes := [(1, 0), (2, 1), (3, 2), (4, 0)]\<rparr>)"
    by (simp add: locate_closest_towers_def init_minimums_def distance_def sqrt_less_100
        manager_def far_rows_def tw_def)
  moreover have "filter (\<lambda>r. Operateur r = 4) far_rows = [tw 3 4 0 120]"
    by (simp add: far_rows_def tw_def)
  moreover have "distance (location (manager far_rows)) (tw 3 4 0 120) = 120"
    by (simp add: distance_def manager_def tw_def)
  ultimately show ?thesis using reduced_database_far by blast
qed

text \<open>
  C7. The claim asks for the label of the first of several rows of an operator at the
  same least distance. On the table \<open>tie_rows\<close> operator 4 has the rows 3 and 4, both
  120 away; the index stored for operator 4 is not 3 but 0, for the same reason as above.
\<close>

theorem locate_closest_towers_tie:
  "reduced_database (manager tie_rows) 1 = Some (database (manager tie_rows))
   \<and> locate_closest_towers (manager tie_rows)
       = Inr ((manager tie_rows)\<lparr>tower_indexes := [(1, 0), (2, 1), (3, 2), (4, 0)]\<rparr>)
   \<and> filter (\<lambda>r. Operateur r = 4) tie_rows = [tw 3 4 0 120, tw 4 4 0 (- 120)]
   \<and> distance (location (manager tie_rows)) (tw 3 4 0 120) = 120
   \<and> distance (location (manager tie_rows)) (tw 4 4 0 (- 120)) = 120"
proof -
  have "locate_closest_towers (manager tie_rows)
       = Inr ((manager tie_rows)\<lparr>tower_indexes := [(1, 0), (2, 1), (3, 2), (4, 0)]\<rparr>)"
    by (simp add: locate_closest_towers_def init_minimums_def distance_def sqrt_less_100
        manager_def tie_rows_def tw_def)
  moreover have "filter (\<lambda>r. Operateur r = 4) tie_rows = [tw 3 4 0 120, tw 4 4 0 (- 120)]"
    by (simp add: tie_rows_def tw_def)
  moreover have "distance (location (manager tie_rows)) (tw 3 4 0 120) = 120"
    "distance (location (manager tie_rows)) (tw 4 4 0 (- 120)) = 120"
    by (simp_all add: distance_def manager_def tw_def)
  ultimately show ?thesis using reduced_database_tie by blast
qed

end
